theory Spec2Isabelle
  imports Main
begin

section \<open>Values exchanged by the handlers of \<^verbatim>\<open>gemini_server.py\<close>\<close>

text \<open>
  The handlers read a JSON request body and return Python dictionaries that the web framework
  serialises as JSON. A dictionary is an association list in the order of the source's dict
  display; \<open>map_of\<close> reads a key. Strings are lists of 8-bit code points.
\<close>

datatype json =
    JNone
  | JBool bool
  | JInt int
  | JFloat int int
  | JStr string
  | JList "json list"
  | JDict "(string \<times> json) list"

type_synonym dict = "(string \<times> json) list"

text \<open>
  Exceptions (instances of Python's \<open>Exception\<close>): the framework's \<open>HTTPException\<close> with its
  status code and detail, an \<open>AttributeError\<close> with its message, and any other exception,
  which carries the text that \<open>str()\<close> gives for it.
\<close>

datatype exn =
    HTTPException nat string
  | AttributeError string
  | Exception string

definition digit_char :: "nat \<Rightarrow> char" where
  "digit_char d = ''0123456789'' ! d"

fun str_nat :: "nat \<Rightarrow> string" where
  "str_nat n = (if n < 10 then [digit_char n] else str_nat (n div 10) @ [digit_char (n mod 10)])"

declare str_nat.simps [simp del]

text \<open>
  \<open>str(e)\<close>. An \<open>HTTPException\<close> prints as \<^verbatim>\<open>f"{status_code}: {detail}"\<close>; the other
  exceptions print their message.
\<close>

fun str_exn :: "exn \<Rightarrow> string" where
  "str_exn (HTTPException status_code detail) = str_nat status_code @ '': '' @ detail"
| "str_exn (AttributeError msg) = msg"
| "str_exn (Exception msg) = msg"

text \<open>The name of a JSON value's Python type, as it appears in an \<open>AttributeError\<close>.\<close>

fun type_name :: "json \<Rightarrow> string" where
  "type_name JNone = ''NoneType''"
| "type_name (JBool _) = ''bool''"
| "type_name (JInt _) = ''int''"
| "type_name (JFloat _ _) = ''float''"
| "type_name (JStr _) = ''str''"
| "type_name (JList _) = ''list''"
| "type_name (JDict _) = ''dict''"

definition quoted :: "string \<Rightarrow> string" where
  "quoted s = [CHR 0x27] @ s @ [CHR 0x27]"

definition no_attribute :: "json \<Rightarrow> string \<Rightarrow> exn" where
  "no_attribute v attr =
     AttributeError (quoted (type_name v) @ '' object has no attribute '' @ quoted attr)"

text \<open>
  \<open>str.strip()\<close> removes leading and trailing whitespace; among the code points below 256
  Python counts these as whitespace.
\<close>

definition isspace :: "char \<Rightarrow> bool" where
  "isspace c = (of_char c \<in> {9, 10, 11, 12, 13, 28, 29, 30, 31, 32, 133, 160 :: nat})"

definition strip :: "string \<Rightarrow> string" where
  "strip s = rev (dropWhile isspace (rev (dropWhile isspace s)))"

section \<open>Module state\<close>

text \<open>
  \<^verbatim>\<open>GEMINI_API_KEY = os.environ.get("GEMINI_API_KEY") or os.environ.get("GOOGLE_API_KEY")\<close>:
  \<open>or\<close> yields its left operand when that is truthy (a non-empty string), else the right one.
  The handlers below take the resulting module constant as their argument \<open>api_key\<close>.
\<close>

definition GEMINI_API_KEY :: "(string \<rightharpoonup> string) \<Rightarrow> string option" where
  "GEMINI_API_KEY environ =
     (case environ ''GEMINI_API_KEY'' of
        None \<Rightarrow> environ ''GOOGLE_API_KEY''
      | Some k \<Rightarrow> if k \<noteq> [] then Some k else environ ''GOOGLE_API_KEY'')"

text \<open>Truthiness of the key (\<open>if GEMINI_API_KEY\<close>, \<open>bool(GEMINI_API_KEY)\<close>): \<open>None\<close> and the
  empty string are false.\<close>

fun truthy :: "string option \<Rightarrow> bool" where
  "truthy None = False"
| "truthy (Some k) = (k \<noteq> [])"

definition MODEL_NAME :: string where
  "MODEL_NAME = ''gemini-2.5-flash''"

section \<open>The provider\<close>

text \<open>
  What the client library returns: a response holds candidates, a candidate holds an optional
  content (\<open>None\<close> stands for a falsy content, which the handlers never look into) and a finish
  reason, a content holds parts, a part holds text. \<open>finish_reason\<close> is the outcome of reading
  the attribute: \<open>Inr r\<close> for a value \<open>r\<close>, \<open>Inl msg\<close> for an object that has no such
  attribute, where \<open>hasattr\<close> is false and reading raises an \<open>AttributeError\<close> with the
  message \<open>msg\<close>.
\<close>

record part =
  part_text :: string

record content =
  parts :: "part list"

record candidate =
  content :: "content option"
  finish_reason :: "string + int"

record generate_content_response =
  candidates :: "candidate list"

text \<open>
  The finish reasons of the client library, \<^verbatim>\<open>Candidate.FinishReason\<close>, with the integers
  the library gives them: a reply that ended by itself, a reply cut at the token cap
  (\<open>max_output_tokens\<close> of the generation configuration), and a reply stopped by the
  content-safety filter.
\<close>

definition STOP :: int where
  "STOP = 1"

definition MAX_TOKENS :: int where
  "MAX_TOKENS = 2"

definition SAFETY :: int where
  "SAFETY = 3"

text \<open>
  The provider as the handlers see it: constructing \<open>genai.GenerativeModel(...)\<close> raises or
  not, and \<open>model.generate_content(prompt)\<close> raises or returns a response.
\<close>

record genai =
  GenerativeModel :: "exn option"
  generate_content :: "string \<Rightarrow> exn + generate_content_response"

text \<open>A provider stub whose \<open>generate_content\<close> has the same outcome for every prompt.\<close>

definition stub :: "exn + generate_content_response \<Rightarrow> genai" where
  "stub outcome = \<lparr>GenerativeModel = None, generate_content = (\<lambda>prompt. outcome)\<rparr>"

text \<open>The calls a handler makes to the provider, in order.\<close>

datatype call = Construct string | Generate string

text \<open>
  Lines 84-91 and 164-171: construct the model for \<open>MODEL_NAME\<close>, then generate. An exception
  of the constructor skips the generate call.
\<close>

definition call_provider :: "genai \<Rightarrow> string \<Rightarrow> (exn + generate_content_response) \<times> call list" where
  "call_provider g prompt =
     (case GenerativeModel g of
        Some e \<Rightarrow> (Inl e, [Construct MODEL_NAME])
      | None \<Rightarrow> (generate_content g prompt, [Construct MODEL_NAME, Generate prompt]))"

text \<open>
  Lines 97-98 and 175-176:
  \<^verbatim>\<open>response.candidates and response.candidates[0].content and response.candidates[0].content.parts\<close>
  and, when it holds, \<^verbatim>\<open>response.candidates[0].content.parts[0].text\<close>.
\<close>

definition first_part_text :: "generate_content_response \<Rightarrow> string option" where
  "first_part_text response =
     (case candidates response of
        [] \<Rightarrow> None
      | c # _ \<Rightarrow>
          (case content c of
             None \<Rightarrow> None
           | Some ct \<Rightarrow> (case parts ct of [] \<Rightarrow> None | p # _ \<Rightarrow> Some (part_text p))))"

section \<open>\<^verbatim>\<open>POST /chat\<close>\<close>

definition safety_apology :: string where
  "safety_apology =
     ''I'm unable to provide a response to that request due to content safety policies.''"

definition inference_apology :: string where
  "inference_apology =
     ''I'm sorry, but I encountered an issue processing your request. This may be due to content safety policies or technical limitations.''"

definition endpoint_apology :: string where
  "endpoint_apology =
     ''I apologize, but I'm having technical difficulties processing your request. Please try again with a different query.''"

text \<open>
  Lines 93-118, the part of the inner \<open>try\<close> after the provider has answered: the guard on
  zero candidates, the text or its substitute (whose branch reads \<open>finish_reason\<close> for the
  log line), the filtered flag, and the returned dictionary.
\<close>

definition chat_reply :: "generate_content_response \<Rightarrow> exn + dict" where
  "chat_reply response =
     (case candidates response of
        [] \<Rightarrow> Inl (HTTPException 500 ''No response generated from Gemini'')
      | c # _ \<Rightarrow>
          (case (case first_part_text response of
                   Some t \<Rightarrow> Inr t
                 | None \<Rightarrow>
                     (case finish_reason c of
                        Inl msg \<Rightarrow> Inl (AttributeError msg)
                      | Inr r \<Rightarrow> Inr safety_apology)) of
             Inl e \<Rightarrow> Inl e
           | Inr text_response \<Rightarrow>
               (let is_filtered =
                      (case finish_reason c of Inl msg \<Rightarrow> False | Inr r \<Rightarrow> r = 2)
                in Inr [(''response'', JStr text_response),
                        (''model'', JStr MODEL_NAME),
                        (''filtered'', JBool is_filtered)])))"

text \<open>
  Lines 82-127, the inner \<open>try\<close> with its \<open>except Exception as model_error\<close>: every exception
  of the provider or of \<open>chat_reply\<close> becomes a returned dictionary.
\<close>

definition chat_inference :: "genai \<Rightarrow> string \<Rightarrow> dict \<times> call list" where
  "chat_inference g user_input =
     (case call_provider g user_input of (outcome, calls) \<Rightarrow>
        (case (case outcome of Inl e \<Rightarrow> Inl e | Inr response \<Rightarrow> chat_reply response) of
           Inr d \<Rightarrow> (d, calls)
         | Inl model_error \<Rightarrow>
             ([(''response'', JStr inference_apology),
               (''model'', JStr MODEL_NAME),
               (''error'', JStr (str_exn model_error))], calls)))"

text \<open>
  Lines 70-127, the body of the outer \<open>try\<close>. \<open>request_json\<close> is the outcome of
  \<^verbatim>\<open>await request.json()\<close>. \<open>data.get("message", "")\<close> needs a dictionary and
  \<open>user_input.strip()\<close> a string; on any other value Python raises \<open>AttributeError\<close>.
\<close>

definition chat_try :: "string option \<Rightarrow> genai \<Rightarrow> exn + json \<Rightarrow> (exn + dict) \<times> call list" where
  "chat_try api_key g request_json =
     (case request_json of
        Inl e \<Rightarrow> (Inl e, [])
      | Inr data \<Rightarrow>
          (case data of
             JDict items \<Rightarrow>
               (case (case map_of items ''message'' of None \<Rightarrow> JStr [] | Some v \<Rightarrow> v) of
                  JStr user_input \<Rightarrow>
                    if strip user_input = [] then
                      (Inl (HTTPException 400 ''Message cannot be empty''), [])
                    else if \<not> truthy api_key then
                      (Inl (HTTPException 500 ''Gemini API key not configured''), [])
                    else (case chat_inference g user_input of (d, calls) \<Rightarrow> (Inr d, calls))
                | v \<Rightarrow> (Inl (no_attribute v ''strip''), []))
           | v \<Rightarrow> (Inl (no_attribute v ''get''), [])))"

text \<open>
  \<open>chat_endpoint\<close>: the outer \<open>try\<close> with its \<open>except Exception as e\<close> (lines 129-136). The
  result is what the handler hands to the framework, \<open>Inr\<close> a returned dictionary or \<open>Inl\<close>
  an exception that leaves the handler, together with the provider calls made.
\<close>

definition chat_endpoint :: "string option \<Rightarrow> genai \<Rightarrow> exn + json \<Rightarrow> (exn + dict) \<times> call list" where
  "chat_endpoint api_key g request_json =
     (case chat_try api_key g request_json of
        (Inr d, calls) \<Rightarrow> (Inr d, calls)
      | (Inl e, calls) \<Rightarrow>
          (Inr [(''response'', JStr endpoint_apology),
                (''model'', JStr MODEL_NAME),
                (''error'', JStr (str_exn e))], calls))"

text \<open>
  The framework's status line: a returned dictionary is sent with 200, an \<open>HTTPException\<close>
  that leaves the handler with its own status code, any other exception with 500.
\<close>

fun http_status :: "exn + dict \<Rightarrow> nat" where
  "http_status (Inr d) = 200"
| "http_status (Inl (HTTPException status_code detail)) = status_code"
| "http_status (Inl e) = 500"

section \<open>\<^verbatim>\<open>GET /health\<close> and \<^verbatim>\<open>GET /test\<close>\<close>

definition health_check :: "string option \<Rightarrow> (exn + dict) \<times> call list" where
  "health_check api_key =
     (let model_loaded = truthy api_key;
          model_info = (if model_loaded
                        then JDict [(''name'', JStr MODEL_NAME), (''type'', JStr ''text'')]
                        else JNone)
      in (Inr [(''status'', JStr ''healthy''),
               (''model_loaded'', JBool model_loaded),
               (''model_info'', model_info)], []))"

definition test_prompt :: string where
  "test_prompt = ''Hello, are you working properly?''"

definition test_filtered :: string where
  "test_filtered = ''I'm functioning correctly, but this test response was filtered.''"

definition test_endpoint :: "string option \<Rightarrow> genai \<Rightarrow> (exn + dict) \<times> call list" where
  "test_endpoint api_key g =
     (if \<not> truthy api_key then
        (Inr [(''success'', JBool False), (''error'', JStr ''Gemini API key not configured'')], [])
      else
        (case call_provider g test_prompt of
           (Inl e, calls) \<Rightarrow>
             (Inr [(''success'', JBool False), (''error'', JStr (str_exn e))], calls)
         | (Inr response, calls) \<Rightarrow>
             (let text_response =
                    (case first_part_text response of Some t \<Rightarrow> t | None \<Rightarrow> test_filtered)
              in (Inr [(''success'', JBool True),
                       (''model'', JStr MODEL_NAME),
                       (''response'', JStr text_response)], calls))))"

text \<open>The dictionary a handler has returned; a handler that raised has returned none.\<close>

definition returned :: "exn + dict \<Rightarrow> dict" where
  "returned outcome = (case outcome of Inr d \<Rightarrow> d | Inl e \<Rightarrow> [])"

section \<open>Auxiliary facts\<close>

lemma str_nat_400: "str_nat 400 = ''400''"
  by (simp add: str_nat.simps digit_char_def)

lemma str_nat_500: "str_nat 500 = ''500''"
  by (simp add: str_nat.simps digit_char_def)

lemma strip_Nil: "strip [] = []"
  by (simp add: strip_def)

lemma strip_spaces: "strip ''   '' = []"
  by (simp add: strip_def isspace_def)

lemma strip_hi: "strip ''hi'' \<noteq> []"
  by (simp add: strip_def isspace_def)

lemma call_provider_stub:
  "call_provider (stub outcome) s = (outcome, [Construct MODEL_NAME, Generate s])"
  by (simp add: call_provider_def stub_def)

text \<open>A request that passes both guards reaches the inner \<open>try\<close>, whose result is returned.\<close>

lemma chat_endpoint_inference:
  assumes "map_of items ''message'' = Some (JStr s)" and "strip s \<noteq> []" and "truthy api_key"
  shows "chat_endpoint api_key g (Inr (JDict items)) =
           (Inr (fst (chat_inference g s)), snd (chat_inference g s))"
  using assms by (simp add: chat_endpoint_def chat_try_def split: prod.splits)

lemma chat_inference_raised:
  assumes "fst (call_provider g s) = Inl e"
  shows "fst (chat_inference g s) =
           [(''response'', JStr inference_apology), (''model'', JStr MODEL_NAME),
            (''error'', JStr (str_exn e))]"
  using assms by (cases "call_provider g s") (simp add: chat_inference_def)

lemma chat_inference_answered:
  assumes "fst (call_provider g s) = Inr response"
  shows "fst (chat_inference g s) =
           (case chat_reply response of
              Inr d \<Rightarrow> d
            | Inl e \<Rightarrow> [(''response'', JStr inference_apology), (''model'', JStr MODEL_NAME),
                        (''error'', JStr (str_exn e))])"
  using assms by (cases "call_provider g s") (simp add: chat_inference_def split: sum.splits)

text \<open>The three \<open>return\<close> statements of \<open>chat_endpoint\<close> are the only shapes of its result.\<close>

lemma chat_inference_shape:
  "(\<exists>t b. fst (chat_inference g s) =
      [(''response'', JStr t), (''model'', JStr MODEL_NAME), (''filtered'', JBool b)])
   \<or> (\<exists>e. fst (chat_inference g s) =
      [(''response'', JStr inference_apology), (''model'', JStr MODEL_NAME),
       (''error'', JStr (str_exn e))])"
proof (cases "fst (call_provider g s)")
  case (Inl e)
  then show ?thesis using chat_inference_raised [of g s e] by blast
next
  case (Inr response)
  show ?thesis
  proof (cases "chat_reply response")
    case (Inl e)
    then show ?thesis using chat_inference_answered [OF Inr] by auto
  next
    case inr: (Inr d)
    then have "\<exists>t b. d = [(''response'', JStr t), (''model'', JStr MODEL_NAME), (''filtered'', JBool b)]"
      by (auto simp add: chat_reply_def split: list.splits sum.splits option.splits)
    then show ?thesis using chat_inference_answered [OF Inr] inr by auto
  qed
qed

lemma chat_try_shape:
  "(\<exists>e. fst (chat_try api_key g request_json) = Inl e)
   \<or> (\<exists>s. fst (chat_try api_key g request_json) = Inr (fst (chat_inference g s)))"
proof (cases "fst (chat_try api_key g request_json)")
  case (Inl e)
  then show ?thesis by blast
next
  case (Inr d)
  then have "\<exists>s. d = fst (chat_inference g s)"
    by (auto simp add: chat_try_def strip_Nil case_prod_beta
        split: sum.splits json.splits option.splits if_splits)
  then show ?thesis using Inr by blast
qed

lemma chat_endpoint_shape:
  "(\<exists>t b. fst (chat_endpoint api_key g request_json) =
      Inr [(''response'', JStr t), (''model'', JStr MODEL_NAME), (''filtered'', JBool b)])
   \<or> (\<exists>e. fst (chat_endpoint api_key g request_json) =
      Inr [(''response'', JStr inference_apology), (''model'', JStr MODEL_NAME),
           (''error'', JStr (str_exn e))])
   \<or> (\<exists>e. fst (chat_endpoint api_key g request_json) =
      Inr [(''response'', JStr endpoint_apology), (''model'', JStr MODEL_NAME),
           (''error'', JStr (str_exn e))])"
proof -
  consider (raised) e where "fst (chat_try api_key g request_json) = Inl e"
    | (returned) s where "fst (chat_try api_key g request_json) = Inr (fst (chat_inference g s))"
    using chat_try_shape by blast
  then show ?thesis
  proof cases
    case raised
    then have "fst (chat_endpoint api_key g request_json) =
      Inr [(''response'', JStr endpoint_apology), (''model'', JStr MODEL_NAME),
           (''error'', JStr (str_exn e))]"
      by (cases "chat_try api_key g request_json") (simp add: chat_endpoint_def)
    then show ?thesis by blast
  next
    case returned
    then have "fst (chat_endpoint api_key g request_json) = Inr (fst (chat_inference g s))"
      by (cases "chat_try api_key g request_json") (simp add: chat_endpoint_def)
    then show ?thesis using chat_inference_shape [of g s] by auto
  qed
qed

section \<open>The guards of \<^verbatim>\<open>POST /chat\<close>\<close>

text \<open>
  C1. A blank or whitespace-only message is to be answered with status 400 without invoking
  the provider. The handler raises \<open>HTTPException(status_code=400)\<close> inside its outer
  \<open>try\<close>, whose \<open>except Exception\<close> catches it: for the message of three spaces, with any
  key and any provider, the handler returns the apology dictionary, which is sent with status
  200. No provider call is made.
\<close>

theorem chat_blank_message_returns_200:
  "chat_endpoint api_key g (Inr (JDict [(''message'', JStr ''   '')])) =
     (Inr [(''response'', JStr endpoint_apology),
           (''model'', JStr MODEL_NAME),
           (''error'', JStr ''400: Message cannot be empty'')], [])
   \<and> http_status (fst (chat_endpoint api_key g (Inr (JDict [(''message'', JStr ''   '')])))) = 200"
  by (simp add: chat_endpoint_def chat_try_def strip_spaces str_nat_400)

text \<open>
  C2. A non-blank message without a configured credential is to be answered with status 500.
  The handler raises \<open>HTTPException(status_code=500)\<close> inside the same outer \<open>try\<close>: for the
  message \<open>hi\<close> and no key, with any provider, it returns the apology dictionary, sent with
  status 200.
\<close>

theorem chat_missing_key_returns_200:
  "chat_endpoint None g (Inr (JDict [(''message'', JStr ''hi'')])) =
     (Inr [(''response'', JStr endpoint_apology),
           (''model'', JStr MODEL_NAME),
           (''error'', JStr ''500: Gemini API key not configured'')], [])
   \<and> http_status (fst (chat_endpoint None g (Inr (JDict [(''message'', JStr ''hi'')])))) = 200"
  by (simp add: chat_endpoint_def chat_try_def strip_hi str_nat_500)

section \<open>Outcomes of the provider call in \<^verbatim>\<open>POST /chat\<close>\<close>

text \<open>
  C3. When the provider returns zero candidates, the answer is to be 200 with the
  substituted apology and no \<open>error\<close> key. The handler raises
  \<open>HTTPException(status_code=500)\<close> at line 94 inside the inner \<open>try\<close>, whose
  \<open>except Exception\<close> catches it: for the key \<open>k\<close>, the message \<open>hi\<close> and a provider that
  returns no candidate, the body is the one of the inner \<open>except\<close> clause, with an \<open>error\<close>
  key. On the same provider result \<open>test_endpoint\<close>, which has no such guard, substitutes
  its fixed text and reports no error.
\<close>

theorem chat_zero_candidates_returns_error:
  "chat_endpoint (Some ''k'') (stub (Inr \<lparr>candidates = []\<rparr>))
       (Inr (JDict [(''message'', JStr ''hi'')])) =
     (Inr [(''response'', JStr inference_apology),
           (''model'', JStr MODEL_NAME),
           (''error'', JStr ''500: No response generated from Gemini'')],
      [Construct MODEL_NAME, Generate ''hi''])
   \<and> http_status (fst (chat_endpoint (Some ''k'') (stub (Inr \<lparr>candidates = []\<rparr>))
         (Inr (JDict [(''message'', JStr ''hi'')])))) = 200
   \<and> fst (test_endpoint (Some ''k'') (stub (Inr \<lparr>candidates = []\<rparr>))) =
     Inr [(''success'', JBool True),
          (''model'', JStr MODEL_NAME),
          (''response'', JStr test_filtered)]"
  by (simp add: chat_endpoint_def chat_try_def strip_hi chat_inference_def call_provider_stub
      chat_reply_def str_nat_500 test_endpoint_def first_part_text_def)

section \<open>The filtered flag of \<^verbatim>\<open>POST /chat\<close>\<close>

text \<open>
  Line 111 compares the finish reason with the literal 2 under the comment \<open>Safety filter
  triggered\<close>. The flag of a reply with at least one candidate is that comparison.
\<close>

lemma chat_reply_filtered:
  assumes "candidates response = c # cs" and "chat_reply response = Inr d"
  shows "map_of d ''filtered'' = Some (JBool (finish_reason c = Inr 2))"
  using assms
  by (auto simp add: chat_reply_def split: option.splits sum.splits)

text \<open>
  C4. A first candidate with text parts and a finish reason other than the safety value is
  to be answered with \<open>filtered\<close> false. The literal 2 of line 111 is the library's
  \<open>MAX_TOKENS\<close>, which is not \<open>SAFETY\<close>: for the key \<open>k\<close>, the message \<open>hi\<close> and a first
  candidate with the text \<open>yo\<close> that was cut at the token cap, the handler answers 200 with
  that text and no \<open>error\<close> key, but with \<open>filtered\<close> true.
\<close>

theorem chat_max_tokens_is_filtered:
  "MAX_TOKENS \<noteq> SAFETY
   \<and> chat_endpoint (Some ''k'')
       (stub (Inr \<lparr>candidates =
          [\<lparr>content = Some \<lparr>parts = [\<lparr>part_text = ''yo''\<rparr>]\<rparr>, finish_reason = Inr MAX_TOKENS\<rparr>]\<rparr>))
       (Inr (JDict [(''message'', JStr ''hi'')])) =
     (Inr [(''response'', JStr ''yo''),
           (''model'', JStr MODEL_NAME),
           (''filtered'', JBool True)],
      [Construct MODEL_NAME, Generate ''hi''])"
  by (simp add: chat_endpoint_def chat_try_def strip_hi chat_inference_def call_provider_stub
      chat_reply_def first_part_text_def MAX_TOKENS_def SAFETY_def)

text \<open>
  C5. A first candidate with text parts and the safety finish reason is to be answered with
  \<open>filtered\<close> true and that text; a first candidate without content parts and another finish
  reason with the substituted apology and \<open>filtered\<close> false. With the same literal of line
  111, for the key \<open>k\<close> and the message \<open>hi\<close>: a first candidate with the text \<open>yo\<close> and the
  finish reason \<open>SAFETY\<close> is answered with that text and \<open>filtered\<close> false, and a first
  candidate without content and the finish reason \<open>MAX_TOKENS\<close> with the substituted apology
  and \<open>filtered\<close> true.
\<close>

theorem chat_safety_not_filtered:
  "fst (chat_endpoint (Some ''k'')
       (stub (Inr \<lparr>candidates =
          [\<lparr>content = Some \<lparr>parts = [\<lparr>part_text = ''yo''\<rparr>]\<rparr>, finish_reason = Inr SAFETY\<rparr>]\<rparr>))
       (Inr (JDict [(''message'', JStr ''hi'')]))) =
     Inr [(''response'', JStr ''yo''),
          (''model'', JStr MODEL_NAME),
          (''filtered'', JBool False)]
   \<and> MAX_TOKENS \<noteq> SAFETY
   \<and> fst (chat_endpoint (Some ''k'')
       (stub (Inr \<lparr>candidates = [\<lparr>content = None, finish_reason = Inr MAX_TOKENS\<rparr>]\<rparr>))
       (Inr (JDict [(''message'', JStr ''hi'')]))) =
     Inr [(''response'', JStr safety_apology),
          (''model'', JStr MODEL_NAME),
          (''filtered'', JBool True)]"
  by (simp add: chat_endpoint_def chat_try_def strip_hi chat_inference_def call_provider_stub
      chat_reply_def first_part_text_def MAX_TOKENS_def SAFETY_def)

section \<open>Exceptions of the provider call in \<^verbatim>\<open>POST /chat\<close>\<close>

text \<open>
  C6. For a non-blank message and a configured credential, when the provider call raises an
  exception (constructing the model or generating), the handler answers 200; \<open>response\<close> is
  the fixed apology of the inner \<open>except\<close> clause and \<open>error\<close> is the string form of the
  raised exception. The status is never 500.
\<close>

theorem chat_provider_exception:
  assumes "map_of items ''message'' = Some (JStr s)" and "strip s \<noteq> []" and "truthy api_key"
    and "fst (call_provider g s) = Inl e"
  shows "fst (chat_endpoint api_key g (Inr (JDict items))) =
           Inr [(''response'', JStr inference_apology),
                (''model'', JStr MODEL_NAME),
                (''error'', JStr (str_exn e))]
         \<and> http_status (fst (chat_endpoint api_key g (Inr (JDict items)))) = 200
         \<and> http_status (fst (chat_endpoint api_key g (Inr (JDict items)))) \<noteq> 500"
  using assms
  by (simp add: chat_endpoint_inference chat_inference_raised)

theorem chat_provider_exception_witness:
  "fst (call_provider (stub (Inl (Exception ''quota exceeded''))) ''hi'') =
     Inl (Exception ''quota exceeded'')
   \<and> fst (chat_endpoint (Some ''k'') (stub (Inl (Exception ''quota exceeded'')))
        (Inr (JDict [(''message'', JStr ''hi'')]))) =
     Inr [(''response'', JStr inference_apology),
          (''model'', JStr MODEL_NAME),
          (''error'', JStr ''quota exceeded'')]
   \<and> http_status (fst (chat_endpoint (Some ''k'') (stub (Inl (Exception ''quota exceeded'')))
        (Inr (JDict [(''message'', JStr ''hi'')])))) = 200"
proof -
  have h1: "map_of [(''message'', JStr ''hi'')] ''message'' = Some (JStr ''hi'')" by simp
  have h2: "strip ''hi'' \<noteq> []" by (rule strip_hi)
  have h3: "truthy (Some ''k'')" by simp
  have h4: "fst (call_provider (stub (Inl (Exception ''quota exceeded''))) ''hi'') =
      Inl (Exception ''quota exceeded'')"
    by (simp add: call_provider_stub)
  show ?thesis
    using chat_provider_exception [OF h1 h2 h3 h4] h4 by simp
qed

section \<open>\<^verbatim>\<open>GET /health\<close> and \<^verbatim>\<open>GET /test\<close>: results\<close>

text \<open>
  C7. \<open>GET /health\<close> returns \<open>status\<close> equal to \<open>healthy\<close>, \<open>model_loaded\<close> true exactly when a
  provider credential is present (the key is a non-empty string), and \<open>model_info\<close> equal to
  the name and type of the model when \<open>model_loaded\<close> is true and null otherwise. It makes no
  provider call and is sent with status 200.
\<close>

theorem health_check_report:
  "health_check api_key =
     (Inr [(''status'', JStr ''healthy''),
           (''model_loaded'', JBool (truthy api_key)),
           (''model_info'',
            if truthy api_key then JDict [(''name'', JStr MODEL_NAME), (''type'', JStr ''text'')]
            else JNone)], [])
   \<and> http_status (fst (health_check api_key)) = 200"
  by (simp add: health_check_def Let_def)

theorem health_check_report_witness:
  "health_check (Some ''k'') =
     (Inr [(''status'', JStr ''healthy''),
           (''model_loaded'', JBool True),
           (''model_info'', JDict [(''name'', JStr MODEL_NAME), (''type'', JStr ''text'')])], [])
   \<and> health_check None =
     (Inr [(''status'', JStr ''healthy''),
           (''model_loaded'', JBool False),
           (''model_info'', JNone)], [])"
  using health_check_report [of "Some ''k''"] health_check_report [of None] by simp

text \<open>
  C8. \<open>GET /test\<close> with a credential configured: when the provider returns a first candidate
  with text parts, the result is \<open>success\<close> true, the model name and \<open>response\<close> equal to
  that text; when the provider call raises an exception, the result is \<open>success\<close> false and
  \<open>error\<close> equal to the string form of the exception.
\<close>

theorem test_endpoint_report:
  assumes "truthy api_key"
  shows "(fst (call_provider g test_prompt) = Inr response \<and> candidates response = c # cs
            \<and> content c = Some ct \<and> parts ct = p # ps \<longrightarrow>
            fst (test_endpoint api_key g) =
              Inr [(''success'', JBool True),
                   (''model'', JStr MODEL_NAME),
                   (''response'', JStr (part_text p))])
       \<and> (fst (call_provider g test_prompt) = Inl e \<longrightarrow>
            fst (test_endpoint api_key g) =
              Inr [(''success'', JBool False), (''error'', JStr (str_exn e))])"
proof (cases "call_provider g test_prompt")
  case (Pair outcome calls)
  with assms show ?thesis
    by (auto simp add: test_endpoint_def first_part_text_def)
qed

theorem test_endpoint_report_witness:
  "fst (test_endpoint (Some ''k'')
       (stub (Inr \<lparr>candidates =
          [\<lparr>content = Some \<lparr>parts = [\<lparr>part_text = ''yes''\<rparr>]\<rparr>, finish_reason = Inr 1\<rparr>]\<rparr>))) =
     Inr [(''success'', JBool True), (''model'', JStr MODEL_NAME), (''response'', JStr ''yes'')]
   \<and> fst (test_endpoint (Some ''k'') (stub (Inl (Exception ''quota exceeded'')))) =
     Inr [(''success'', JBool False), (''error'', JStr ''quota exceeded'')]"
proof -
  let ?c = "\<lparr>content = Some \<lparr>parts = [\<lparr>part_text = ''yes''\<rparr>]\<rparr>, finish_reason = Inr 1\<rparr>"
  have h: "truthy (Some ''k'')" by simp
  have answered: "fst (test_endpoint (Some ''k'') (stub (Inr \<lparr>candidates = [?c]\<rparr>))) =
     Inr [(''success'', JBool True), (''model'', JStr MODEL_NAME), (''response'', JStr ''yes'')]"
    using test_endpoint_report [OF h, of "stub (Inr \<lparr>candidates = [?c]\<rparr>)"
        "\<lparr>candidates = [?c]\<rparr>" ?c "[]" "\<lparr>parts = [\<lparr>part_text = ''yes''\<rparr>]\<rparr>"
        "\<lparr>part_text = ''yes''\<rparr>" "[]" "Exception []"]
    by (simp add: call_provider_stub)
  have raised: "fst (test_endpoint (Some ''k'') (stub (Inl (Exception ''quota exceeded'')))) =
     Inr [(''success'', JBool False), (''error'', JStr ''quota exceeded'')]"
    using test_endpoint_report [OF h, of "stub (Inl (Exception ''quota exceeded''))"
        "\<lparr>candidates = []\<rparr>" ?c "[]" "\<lparr>parts = []\<rparr>"
        "\<lparr>part_text = []\<rparr>" "[]" "Exception ''quota exceeded''"]
    by (simp add: call_provider_stub)
  show ?thesis using answered raised by (rule conjI)
qed

section \<open>The body of every \<^verbatim>\<open>POST /chat\<close> answer\<close>

text \<open>
  C9. Whatever the key, the provider and the request, the handler returns a dictionary (on
  the success path, with the substituted apology, after a provider exception and after an
  exception of the outer \<open>try\<close>) that has a \<open>response\<close> key holding a string and a \<open>model\<close>
  key holding the fixed model name.
\<close>

theorem chat_body_response_model:
  "\<exists>d t. fst (chat_endpoint api_key g request_json) = Inr d
         \<and> map_of d ''response'' = Some (JStr t)
         \<and> map_of d ''model'' = Some (JStr MODEL_NAME)"
  using chat_endpoint_shape [of api_key g request_json] by auto

theorem chat_body_response_model_witness:
  "\<exists>d t. fst (chat_endpoint None (stub (Inl (Exception ''down''))) (Inr (JList []))) = Inr d
         \<and> map_of d ''response'' = Some (JStr t)
         \<and> map_of d ''model'' = Some (JStr MODEL_NAME)"
  by (rule chat_body_response_model)

lemma chat_reply_keys:
  assumes "chat_reply response = Inr d"
  shows "(\<exists>b. map_of d ''filtered'' = Some (JBool b)) \<and> map_of d ''error'' = None"
  using assms
  by (auto simp add: chat_reply_def split: list.splits option.splits sum.splits)

lemma chat_endpoint_raised:
  assumes "fst (chat_try api_key g request_json) = Inl e"
  shows "fst (chat_endpoint api_key g request_json) =
           Inr [(''response'', JStr endpoint_apology), (''model'', JStr MODEL_NAME),
                (''error'', JStr (str_exn e))]"
  using assms by (cases "chat_try api_key g request_json") (simp add: chat_endpoint_def)

text \<open>
  C10. In every body that the handler returns, the \<open>filtered\<close> key and the \<open>error\<close> key are
  mutually exclusive, and the path decides which one is there. On the provider-success path
  (the guards pass, the provider answers and the inner \<open>try\<close> reaches its \<open>return\<close>) the body
  is the returned dictionary, which has \<open>filtered\<close> (a boolean, also when false) and no
  \<open>error\<close>. On the path of the inner \<open>except\<close> (the guards pass, and the provider call or
  the rest of the inner \<open>try\<close> raises \<open>e\<close>) and on the path of the outer \<open>except\<close> (the
  body of the outer \<open>try\<close> raises \<open>e\<close>) the body has \<open>error\<close>, the string form of \<open>e\<close>,
  and no \<open>filtered\<close>. Whatever the path, \<open>filtered\<close> is absent exactly when \<open>error\<close> is
  present.
\<close>

theorem chat_filtered_xor_error:
  "(map_of items ''message'' = Some (JStr s) \<and> strip s \<noteq> [] \<and> truthy api_key
      \<and> fst (call_provider g s) = Inr response \<and> chat_reply response = Inr d \<longrightarrow>
        fst (chat_endpoint api_key g (Inr (JDict items))) = Inr d
        \<and> (\<exists>b. map_of d ''filtered'' = Some (JBool b))
        \<and> map_of d ''error'' = None)
   \<and> (map_of items ''message'' = Some (JStr s) \<and> strip s \<noteq> [] \<and> truthy api_key
      \<and> (fst (call_provider g s) = Inl e
          \<or> fst (call_provider g s) = Inr response \<and> chat_reply response = Inl e) \<longrightarrow>
        map_of (returned (fst (chat_endpoint api_key g (Inr (JDict items))))) ''error'' =
          Some (JStr (str_exn e))
        \<and> map_of (returned (fst (chat_endpoint api_key g (Inr (JDict items))))) ''filtered'' =
          None)
   \<and> (fst (chat_try api_key g request_json) = Inl e \<longrightarrow>
        map_of (returned (fst (chat_endpoint api_key g request_json))) ''error'' =
          Some (JStr (str_exn e))
        \<and> map_of (returned (fst (chat_endpoint api_key g request_json))) ''filtered'' = None)
   \<and> (\<exists>d'. fst (chat_endpoint api_key g request_json) = Inr d'
         \<and> (map_of d' ''filtered'' = None) = (map_of d' ''error'' \<noteq> None))"
proof (intro conjI impI)
  assume h: "map_of items ''message'' = Some (JStr s) \<and> strip s \<noteq> [] \<and> truthy api_key
      \<and> fst (call_provider g s) = Inr response \<and> chat_reply response = Inr d"
  then show "fst (chat_endpoint api_key g (Inr (JDict items))) = Inr d"
    by (simp add: chat_endpoint_inference chat_inference_answered)
  from h show "\<exists>b. map_of d ''filtered'' = Some (JBool b)"
    using chat_reply_keys [of response d] by simp
  from h show "map_of d ''error'' = None"
    using chat_reply_keys [of response d] by simp
next
  assume h: "map_of items ''message'' = Some (JStr s) \<and> strip s \<noteq> [] \<and> truthy api_key
      \<and> (fst (call_provider g s) = Inl e
          \<or> fst (call_provider g s) = Inr response \<and> chat_reply response = Inl e)"
  then have body: "fst (chat_endpoint api_key g (Inr (JDict items))) =
      Inr [(''response'', JStr inference_apology), (''model'', JStr MODEL_NAME),
           (''error'', JStr (str_exn e))]"
    by (auto simp add: chat_endpoint_inference chat_inference_raised chat_inference_answered)
  show "map_of (returned (fst (chat_endpoint api_key g (Inr (JDict items))))) ''error'' =
          Some (JStr (str_exn e))"
    by (simp add: body returned_def)
  show "map_of (returned (fst (chat_endpoint api_key g (Inr (JDict items))))) ''filtered'' = None"
    by (simp add: body returned_def)
next
  assume h: "fst (chat_try api_key g request_json) = Inl e"
  show "map_of (returned (fst (chat_endpoint api_key g request_json))) ''error'' =
          Some (JStr (str_exn e))"
    by (simp add: chat_endpoint_raised [OF h] returned_def)
  show "map_of (returned (fst (chat_endpoint api_key g request_json))) ''filtered'' = None"
    by (simp add: chat_endpoint_raised [OF h] returned_def)
next
  show "\<exists>d'. fst (chat_endpoint api_key g request_json) = Inr d'
         \<and> (map_of d' ''filtered'' = None) = (map_of d' ''error'' \<noteq> None)"
    using chat_endpoint_shape [of api_key g request_json] by auto
qed

theorem chat_filtered_xor_error_witness:
  "fst (chat_endpoint (Some ''k'')
       (stub (Inr \<lparr>candidates =
          [\<lparr>content = Some \<lparr>parts = [\<lparr>part_text = ''yo''\<rparr>]\<rparr>, finish_reason = Inr STOP\<rparr>]\<rparr>))
       (Inr (JDict [(''message'', JStr ''hi'')]))) =
     Inr [(''response'', JStr ''yo''), (''model'', JStr MODEL_NAME), (''filtered'', JBool False)]
   \<and> map_of (returned (fst (chat_endpoint (Some ''k'') (stub (Inl (Exception ''quota exceeded'')))
        (Inr (JDict [(''message'', JStr ''hi'')]))))) ''error'' = Some (JStr ''quota exceeded'')
   \<and> map_of (returned (fst (chat_endpoint (Some ''k'') (stub (Inl (Exception ''quota exceeded'')))
        (Inr (JDict [(''message'', JStr ''hi'')]))))) ''filtered'' = None
   \<and> map_of (returned (fst (chat_endpoint (Some ''k'') (stub (Inl (Exception ''quota exceeded'')))
        (Inl (Exception ''Expecting value''))))) ''error'' = Some (JStr ''Expecting value'')
   \<and> map_of (returned (fst (chat_endpoint (Some ''k'') (stub (Inl (Exception ''quota exceeded'')))
        (Inl (Exception ''Expecting value''))))) ''filtered'' = None"
proof -
  let ?c = "\<lparr>content = Some \<lparr>parts = [\<lparr>part_text = ''yo''\<rparr>]\<rparr>, finish_reason = Inr STOP\<rparr>"
  let ?r = "\<lparr>candidates = [?c]\<rparr>"
  let ?d = "[(''response'', JStr ''yo''), (''model'', JStr MODEL_NAME), (''filtered'', JBool False)]"
  let ?items = "[(''message'', JStr ''hi'')]"
  let ?down = "stub (Inl (Exception ''quota exceeded''))"
  have h1: "map_of ?items ''message'' = Some (JStr ''hi'')" by simp
  have h2: "strip ''hi'' \<noteq> []" by (rule strip_hi)
  have h3: "truthy (Some ''k'')" by simp
  have a4: "fst (call_provider (stub (Inr ?r)) ''hi'') = Inr ?r"
    by (simp add: call_provider_stub)
  have a5: "chat_reply ?r = Inr ?d"
    by (simp add: chat_reply_def first_part_text_def STOP_def)
  have b4: "fst (call_provider ?down ''hi'') = Inl (Exception ''quota exceeded'')"
    by (simp add: call_provider_stub)
  have c1: "fst (chat_try (Some ''k'') ?down (Inl (Exception ''Expecting value''))) =
      Inl (Exception ''Expecting value'')"
    by (simp add: chat_try_def)
  have success: "fst (chat_endpoint (Some ''k'') (stub (Inr ?r)) (Inr (JDict ?items))) = Inr ?d"
    using chat_filtered_xor_error [of ?items "''hi''" "Some ''k''" "stub (Inr ?r)" ?r ?d
        "Exception []" "Inr JNone", THEN conjunct1] h1 h2 h3 a4 a5
    by simp
  have inner: "map_of (returned (fst (chat_endpoint (Some ''k'') ?down (Inr (JDict ?items)))))
        ''error'' = Some (JStr ''quota exceeded'')
      \<and> map_of (returned (fst (chat_endpoint (Some ''k'') ?down (Inr (JDict ?items)))))
        ''filtered'' = None"
    using chat_filtered_xor_error [of ?items "''hi''" "Some ''k''" ?down ?r ?d
        "Exception ''quota exceeded''" "Inr JNone", THEN conjunct2, THEN conjunct1] h1 h2 h3 b4
    by simp
  have outer: "map_of (returned (fst (chat_endpoint (Some ''k'') ?down
          (Inl (Exception ''Expecting value''))))) ''error'' = Some (JStr ''Expecting value'')
      \<and> map_of (returned (fst (chat_endpoint (Some ''k'') ?down
          (Inl (Exception ''Expecting value''))))) ''filtered'' = None"
    using chat_filtered_xor_error [of ?items "''hi''" "Some ''k''" ?down ?r ?d
        "Exception ''Expecting value''" "Inl (Exception ''Expecting value'')",
        THEN conjunct2, THEN conjunct2, THEN conjunct1] c1
    by simp
  show ?thesis using success inner outer by simp
qed

end
